theory Spec2Isabelle
  imports Main "HOL-Library.Sublist"
begin

section \<open>Data model of the IRC client\<close>

text \<open>
  The embedding follows \<^verbatim>\<open>ircclient/ircclient.go\<close> and \<^verbatim>\<open>plugins/admincmds.go\<close>.
  Go strings are byte sequences, so they are \<^typ>\<open>string\<close> (lists of 8-bit characters) and
  \<^verbatim>\<open>len\<close> is \<^const>\<open>length\<close>.

  A Go \<^verbatim>\<open>error\<close> built with \<^verbatim>\<open>errors.New\<close> is a value carrying its message. A run-time
  panic is a value of its own type: a function of the source that can panic returns
  \<open>panic + 'a\<close>.
\<close>

datatype error = errors_New string

datatype panic = IndexOutOfRange | SliceBoundsOutOfRange

text \<open>
  Modelled from the spec: the declarations of \<^verbatim>\<open>IRCMessage\<close> and \<^verbatim>\<open>IRCCommand\<close> are not in
  the two source files. The fields are the ones the source reads (\<^verbatim>\<open>Source\<close>, \<^verbatim>\<open>Target\<close>,
  \<^verbatim>\<open>Command\<close>, \<^verbatim>\<open>Args\<close>), which are also the fields of the spec's Event and Command. The
  field names carry a prefix because both structs use the same four names.
\<close>

record IRCMessage =
  m_Source :: string
  m_Target :: string
  m_Command :: string
  m_Args :: "string list"

record IRCCommand =
  c_Source :: string
  c_Target :: string
  c_Command :: string
  c_Args :: "string list"

text \<open>
  Modelled from the spec: the \<^verbatim>\<open>Plugin\<close> interface is not in the two source files. A plugin
  is represented by the two pure methods the client calls for their result, \<^verbatim>\<open>String()\<close>
  and \<^verbatim>\<open>Usage(cmd)\<close>. The hooks \<^verbatim>\<open>ProcessLine\<close>, \<^verbatim>\<open>ProcessCommand\<close> and \<^verbatim>\<open>Unregister\<close> are
  called for their effect only; the client's calls to them are recorded as effects (below),
  and what a hook does when it runs is the plugin's business.
\<close>

record Plugin =
  String :: string
  Usage :: "string \<Rightarrow> string"

record handler =
  Handler :: Plugin
  h_Command :: string
  Minparams :: int
  Minaccess :: int

text \<open>
  Everything the client does to the outside, in the order in which it does it:
  a line sent on \<^verbatim>\<open>ic.conn.Output\<close>, the call \<^verbatim>\<open>ic.conn.Quit()\<close>, a synchronous call of a
  plugin's \<^verbatim>\<open>Unregister()\<close>, and the start of a goroutine running \<^verbatim>\<open>ProcessLine\<close> or
  \<^verbatim>\<open>ProcessCommand\<close> of a plugin.
\<close>

datatype effect =
    Output string
  | conn_Quit
  | call_Unregister Plugin
  | go_ProcessLine Plugin IRCMessage
  | go_ProcessCommand Plugin IRCCommand

text \<open>
  The client. \<^verbatim>\<open>plugins\<close> is a Go map from the plugin's name to the plugin; it is an
  association list here because the source iterates over it, and Go leaves the order of
  that iteration open: a statement proved for every list holds for every order.
  \<^verbatim>\<open>handlers\<close> is a Go map that is only looked up and stored into.

  Modelled from the spec: the configuration plugin (\<^verbatim>\<open>"conf"\<close>) and the authorization plugin
  (\<^verbatim>\<open>"auth"\<close>), which \<^verbatim>\<open>NewIRCClient\<close> always registers, are not in the two source files.
  Their stores are the fields \<open>conf\<close> (section and option to value) and \<open>auth\<close> (the
  result of \<^verbatim>\<open>authPlugin.GetAccessLevel\<close> for each hostmask).
\<close>

record IRCClient =
  plugins :: "(string \<times> Plugin) list"
  handlers :: "string \<rightharpoonup> handler"
  conf :: "string \<times> string \<rightharpoonup> string"
  auth :: "string \<Rightarrow> int"
  effects :: "effect list"

definition emit :: "effect \<Rightarrow> IRCClient \<Rightarrow> IRCClient" where
  "emit e ic = ic\<lparr>effects := effects ic @ [e]\<rparr>"

definition send_Output :: "string \<Rightarrow> IRCClient \<Rightarrow> IRCClient" where
  \<comment> \<open>\<^verbatim>\<open>ic.conn.Output <- line\<close>; a send that finds the queue full waits, it is never dropped\<close>
  "send_Output line ic = emit (Output line) ic"

fun lines_sent :: "effect list \<Rightarrow> string list" where
  \<comment> \<open>the lines put on the output queue, in the order of the sends\<close>
  "lines_sent [] = []"
| "lines_sent (Output l # es) = l # lines_sent es"
| "lines_sent (e # es) = lines_sent es"

section \<open>String helpers of the Go library\<close>

definition strings_Replace1 :: "string \<Rightarrow> char \<Rightarrow> char \<Rightarrow> string" where
  \<comment> \<open>\<^verbatim>\<open>strings.Replace(s, old, new, -1)\<close> for one-byte \<^verbatim>\<open>old\<close> and \<^verbatim>\<open>new\<close>\<close>
  "strings_Replace1 s old new = map (\<lambda>c. if c = old then new else c) s"

fun strings_Index :: "string \<Rightarrow> string \<Rightarrow> int" where
  \<comment> \<open>\<^verbatim>\<open>strings.Index(s, sub)\<close>: the first position of \<^verbatim>\<open>sub\<close> in \<^verbatim>\<open>s\<close>, or -1\<close>
  "strings_Index [] sub = (if sub = [] then 0 else - 1)"
| "strings_Index (c # s) sub =
     (if prefix sub (c # s) then 0
      else (let i = strings_Index s sub in if i < 0 then - 1 else i + 1))"

fun strings_Join :: "string list \<Rightarrow> string \<Rightarrow> string" where
  \<comment> \<open>\<^verbatim>\<open>strings.Join(a, sep)\<close>\<close>
  "strings_Join [] sep = []"
| "strings_Join [a] sep = a"
| "strings_Join (a # b # bs) sep = a @ sep @ strings_Join (b # bs) sep"

definition SplitN2_first :: "string \<Rightarrow> char \<Rightarrow> string" where
  \<comment> \<open>\<^verbatim>\<open>strings.SplitN(s, sep, 2)[0]\<close> for a one-byte \<^verbatim>\<open>sep\<close>: the text before the first
      \<^verbatim>\<open>sep\<close>, all of \<^verbatim>\<open>s\<close> when there is none. The result of \<^verbatim>\<open>SplitN\<close> is never empty.\<close>
  "SplitN2_first s sep = takeWhile (\<lambda>c. c \<noteq> sep) s"

section \<open>Configuration and access level\<close>

definition GetStringOption :: "IRCClient \<Rightarrow> string \<Rightarrow> string \<Rightarrow> string" where
  "GetStringOption ic section option =
     (case conf ic (section, option) of None \<Rightarrow> [] | Some retval \<Rightarrow> retval)"

definition SetStringOption :: "IRCClient \<Rightarrow> string \<Rightarrow> string \<Rightarrow> string \<Rightarrow> IRCClient" where
  "SetStringOption ic section option v = ic\<lparr>conf := (conf ic)((section, option) \<mapsto> v)\<rparr>"

definition GetAccessLevel :: "IRCClient \<Rightarrow> string \<Rightarrow> int" where
  "GetAccessLevel ic host = auth ic host"

section \<open>Registration of command handlers\<close>

definition RegisterCommandHandler ::
  "IRCClient \<Rightarrow> string \<Rightarrow> int \<Rightarrow> int \<Rightarrow> Plugin \<Rightarrow> error option \<times> IRCClient" where
  "RegisterCommandHandler ic command minparams minaccess plugin =
     (case handlers ic command of
        Some plug \<Rightarrow>
          (Some (errors_New (''Handler is already registered by plugin: '' @ String (Handler plug))), ic)
      | None \<Rightarrow>
          (None, ic\<lparr>handlers := (handlers ic)(command \<mapsto>
             \<lparr>Handler = plugin, h_Command = command, Minparams = minparams, Minaccess = minaccess\<rparr>)\<rparr>))"

section \<open>Sending\<close>

definition SendLine :: "IRCClient \<Rightarrow> string \<Rightarrow> IRCClient" where
  "SendLine ic line =
     (let line = strings_Replace1 line (CHR 0x0D) CHR '' '';
          line = strings_Replace1 line (CHR 0x0A) CHR '' '';
          line = (if length line > 510 then take 510 line else line)
      in send_Output line ic)"

definition GetUsage :: "IRCClient \<Rightarrow> string \<Rightarrow> string" where
  "GetUsage ic cmd =
     (case handlers ic cmd of
        None \<Rightarrow> ''no such command''
      | Some plugin \<Rightarrow> Usage (Handler plugin) cmd)"

definition Reply :: "IRCClient \<Rightarrow> IRCCommand \<Rightarrow> string \<Rightarrow> IRCClient" where
  "Reply ic cmd message =
     (let target =
            (if c_Target cmd \<noteq> GetStringOption ic ''Server'' ''nick'' then c_Target cmd
             else SplitN2_first (c_Source cmd) CHR ''!'')
      in SendLine ic (''NOTICE '' @ target @ '' :'' @ message))"

section \<open>Shutdown and disconnect\<close>

fun Shutdown_range :: "(string \<times> Plugin) list \<Rightarrow> IRCClient \<Rightarrow> IRCClient" where
  \<comment> \<open>\<^verbatim>\<open>for _, p := range ic.plugins { p.Unregister() }\<close>\<close>
  "Shutdown_range [] ic = ic"
| "Shutdown_range ((name, p) # ps) ic = Shutdown_range ps (emit (call_Unregister p) ic)"

definition Shutdown :: "IRCClient \<Rightarrow> IRCClient" where
  "Shutdown ic = Shutdown_range (plugins ic) ic"

definition Disconnect :: "IRCClient \<Rightarrow> string \<Rightarrow> IRCClient" where
  "Disconnect ic quitmsg =
     (let ic = Shutdown ic;
          ic = send_Output (''QUIT :'' @ quitmsg) ic
      in emit conn_Quit ic)"

section \<open>Dispatch of an inbound line\<close>

fun ProcessLine_range :: "(string \<times> Plugin) list \<Rightarrow> IRCMessage \<Rightarrow> IRCClient \<Rightarrow> IRCClient" where
  \<comment> \<open>\<^verbatim>\<open>for _, p := range ic.plugins { go p.ProcessLine(s) }\<close>\<close>
  "ProcessLine_range [] s ic = ic"
| "ProcessLine_range ((name, p) # ps) s ic = ProcessLine_range ps s (emit (go_ProcessLine p s) ic)"

text \<open>
  \<^verbatim>\<open>ParseServerLine\<close> and \<^verbatim>\<open>ParseCommand\<close> are not in the two source files; they are
  parameters of the functions that call them, with \<open>None\<close> for the \<^verbatim>\<open>nil\<close> result.

  The two places of \<^verbatim>\<open>dispatchHandlers\<close> where Go checks a bound are branches of the model:
  \<^verbatim>\<open>s.Args[0]\<close>, evaluated only when the left operand of \<^verbatim>\<open>||\<close> is false, and the slice
  \<^verbatim>\<open>c.Command[len(trigger):]\<close>.
\<close>

definition dispatchHandlers ::
  "(string \<Rightarrow> IRCMessage option) \<Rightarrow> (IRCMessage \<Rightarrow> IRCCommand option) \<Rightarrow>
     IRCClient \<Rightarrow> string \<Rightarrow> panic + IRCClient" where
  "dispatchHandlers ParseServerLine ParseCommand ic inp =
     (case ParseServerLine inp of
        None \<Rightarrow> Inr ic
      | Some s \<Rightarrow>
          let ic = ProcessLine_range (plugins ic) s ic in
          if m_Command s \<noteq> ''PRIVMSG'' \<and> m_Command s \<noteq> ''NOTICE'' then Inr ic
          else (case m_Args s of
            [] \<Rightarrow> Inl IndexOutOfRange
          | a0 # _ \<Rightarrow>
              if strings_Index a0 (GetStringOption ic ''Server'' ''trigger'') \<noteq> 0 then Inr ic
              else (case ParseCommand s of
                None \<Rightarrow> Inr ic
              | Some c \<Rightarrow>
                  if length (c_Command c) = 0 then Inr ic
                  else if length (GetStringOption ic ''Server'' ''trigger'') > length (c_Command c)
                  then Inl SliceBoundsOutOfRange
                  else
                    let c = c\<lparr>c_Command :=
                              drop (length (GetStringOption ic ''Server'' ''trigger'')) (c_Command c)\<rparr>
                    in (case handlers ic (c_Command c) of
                      None \<Rightarrow> Inr ic
                    | Some handler \<Rightarrow>
                        if Minaccess handler > 0 \<and>
                           GetAccessLevel ic (c_Source c) < Minaccess handler
                        then Inr (Reply ic c ''You are not authorized to do that.'')
                        else if int (length (c_Args c)) < Minparams handler
                        then Inr (Reply ic c (GetUsage ic (c_Command c)))
                        else Inr (emit (go_ProcessCommand (Handler handler) c) ic)))))"

section \<open>Connecting and registering with the server\<close>

text \<open>
  The input channel \<^verbatim>\<open>ic.conn.Input\<close> is the list of the lines it delivers and what follows
  them: \<open>Some e\<close> when the channel is then closed and \<^verbatim>\<open>ic.conn.Err\<close> delivers \<open>e\<close>,
  \<open>None\<close> when the channel stays open and silent, in which case the receive never returns.
\<close>

datatype outcome = Returned "error option" | Blocked

fun Connect_loop ::
  "(string \<Rightarrow> IRCMessage option) \<Rightarrow> string \<Rightarrow> string list \<Rightarrow> error option \<Rightarrow>
     IRCClient \<Rightarrow> outcome \<times> IRCClient" where
  "Connect_loop ParseServerLine nick [] closed ic =
     (case closed of Some e \<Rightarrow> (Returned (Some e), ic) | None \<Rightarrow> (Blocked, ic))"
| "Connect_loop ParseServerLine nick (line # rest) closed ic =
     (case ParseServerLine line of
        None \<Rightarrow> Connect_loop ParseServerLine nick rest closed ic
      | Some s \<Rightarrow>
          let ic = ProcessLine_range (plugins ic) s ic in
          if m_Command s = ''433'' then
            let nick = nick @ ''_'';
                ic = SetStringOption ic ''Server'' ''nick'' nick;
                ic = send_Output (''NICK '' @ nick) ic
            in Connect_loop ParseServerLine nick rest closed ic
          else if m_Command s = ''001'' then (Returned None, ic)
          else Connect_loop ParseServerLine nick rest closed ic)"

text \<open>
  \<open>conn_Connect\<close> is the result of \<^verbatim>\<open>ic.conn.Connect(host)\<close> (the transport is not in the
  two source files) and \<open>os_Args\<close> is the command line of the process.
\<close>

definition Connect ::
  "(string \<Rightarrow> IRCMessage option) \<Rightarrow> (string \<Rightarrow> error option) \<Rightarrow> string list \<Rightarrow>
     string list \<Rightarrow> error option \<Rightarrow> IRCClient \<Rightarrow> outcome \<times> IRCClient" where
  "Connect ParseServerLine conn_Connect os_Args input closed ic =
     (case conn_Connect (GetStringOption ic ''Server'' ''host'') of
        Some e \<Rightarrow> (Returned (Some e), ic)
      | None \<Rightarrow>
          if length os_Args > 1 then (Returned None, ic)
          else
            let ic = send_Output (''NICK '' @ GetStringOption ic ''Server'' ''nick'') ic;
                ic = send_Output (''USER '' @ GetStringOption ic ''Server'' ''ident'' @ '' * Q :''
                                   @ GetStringOption ic ''Server'' ''realname'') ic;
                nick = GetStringOption ic ''Server'' ''nick''
            in Connect_loop ParseServerLine nick input closed ic)"

section \<open>The admin plugin\<close>

definition AdminPlugin_Usage :: "string \<Rightarrow> string" where
  "AdminPlugin_Usage cmd =
     (if cmd = ''inviteme'' then ''inviteme <channelname>''
      else if cmd = ''say'' then ''say <channelname> <message>''
      else if cmd = ''notice'' then ''notice <channelname> <message>''
      else if cmd = ''action'' then ''action <channelname> <message>''
      else [])"

definition AdminPlugin :: Plugin where
  "AdminPlugin = \<lparr>String = ''admin'', Usage = AdminPlugin_Usage\<rparr>"

definition AdminPlugin_Register :: "IRCClient \<Rightarrow> IRCClient" where
  \<comment> \<open>the four results of \<^verbatim>\<open>RegisterCommandHandler\<close> are discarded, as in the source\<close>
  "AdminPlugin_Register cl =
     (let cl = snd (RegisterCommandHandler cl ''inviteme'' 1 400 AdminPlugin);
          cl = snd (RegisterCommandHandler cl ''say'' 2 500 AdminPlugin);
          cl = snd (RegisterCommandHandler cl ''notice'' 2 500 AdminPlugin);
          cl = snd (RegisterCommandHandler cl ''action'' 2 500 AdminPlugin)
      in cl)"

definition index0 :: "string list \<Rightarrow> panic + string" where
  \<comment> \<open>\<^verbatim>\<open>a[0]\<close>\<close>
  "index0 a = (case a of [] \<Rightarrow> Inl IndexOutOfRange | x # _ \<Rightarrow> Inr x)"

definition slice1 :: "string list \<Rightarrow> panic + string list" where
  \<comment> \<open>\<^verbatim>\<open>a[1:]\<close>\<close>
  "slice1 a = (if length a < 1 then Inl SliceBoundsOutOfRange else Inr (drop 1 a))"

definition AdminPlugin_ProcessCommand :: "IRCClient \<Rightarrow> IRCCommand \<Rightarrow> panic + IRCClient" where
  "AdminPlugin_ProcessCommand ic cmd =
     (if c_Command cmd = ''inviteme'' then
        (case index0 (c_Args cmd) of
           Inl p \<Rightarrow> Inl p
         | Inr a0 \<Rightarrow>
             Inr (SendLine ic (''INVITE '' @ SplitN2_first (c_Source cmd) CHR ''!'' @ '' '' @ a0)))
      else if c_Command cmd = ''say'' then
        (case index0 (c_Args cmd) of
           Inl p \<Rightarrow> Inl p
         | Inr a0 \<Rightarrow>
             (case slice1 (c_Args cmd) of
                Inl p \<Rightarrow> Inl p
              | Inr rest \<Rightarrow>
                  Inr (SendLine ic (''PRIVMSG '' @ a0 @ '' :'' @ strings_Join rest '' ''))))
      else if c_Command cmd = ''notice'' then
        (case index0 (c_Args cmd) of
           Inl p \<Rightarrow> Inl p
         | Inr a0 \<Rightarrow>
             (case slice1 (c_Args cmd) of
                Inl p \<Rightarrow> Inl p
              | Inr rest \<Rightarrow>
                  Inr (SendLine ic (''NOTICE '' @ a0 @ '' :'' @ strings_Join rest '' ''))))
      else if c_Command cmd = ''action'' then
        (case index0 (c_Args cmd) of
           Inl p \<Rightarrow> Inl p
         | Inr a0 \<Rightarrow>
             (case slice1 (c_Args cmd) of
                Inl p \<Rightarrow> Inl p
              | Inr rest \<Rightarrow>
                  Inr (SendLine ic (''PRIVMSG '' @ a0 @ '' :'' @ [CHR 0x01] @ ''ACTION ''
                                     @ strings_Join rest '' '' @ [CHR 0x01]))))
      else Inr ic)"

section \<open>Registration of plugins\<close>

text \<open>
  \<open>p_Register\<close> is what the plugin's \<^verbatim>\<open>Register\<close> hook does to the client (for the admin plugin,
  \<^const>\<open>AdminPlugin_Register\<close>).
\<close>

definition RegisterPlugin ::
  "IRCClient \<Rightarrow> (IRCClient \<Rightarrow> IRCClient) \<Rightarrow> Plugin \<Rightarrow> error option \<times> IRCClient" where
  "RegisterPlugin ic p_Register p =
     (case map_of (plugins ic) (String p) of
        Some _ \<Rightarrow> (Some (errors_New ''Plugin already exists''), ic)
      | None \<Rightarrow>
          (let ic = p_Register ic
           in (None, ic\<lparr>plugins := plugins ic @ [(String p, p)]\<rparr>)))"

section \<open>Sample data\<close>

text \<open>
  Modelled from the spec: \<^verbatim>\<open>ParseServerLine\<close> and \<^verbatim>\<open>ParseCommand\<close> are not in the two source
  files. The examples use a parser that knows the line of section 8 of the spec, with the
  parse the spec gives for it (the command verb still carries the trigger, which
  \<^verbatim>\<open>dispatchHandlers\<close> strips), the two numeric replies of the registration, and a message
  line without parameters. Every other line is malformed.
\<close>

definition sample_ParseServerLine :: "string \<Rightarrow> IRCMessage option" where
  "sample_ParseServerLine line =
     (if line = '':nick!user@host PRIVMSG #chan :!say #chan hello world'' then
        Some \<lparr>m_Source = ''nick!user@host'', m_Target = ''#chan'', m_Command = ''PRIVMSG'',
              m_Args = [''!say #chan hello world'']\<rparr>
      else if line = '':nick!user@host PRIVMSG #chan :!say'' then
        Some \<lparr>m_Source = ''nick!user@host'', m_Target = ''#chan'', m_Command = ''PRIVMSG'',
              m_Args = [''!say'']\<rparr>
      else if line = '':srv 433 * bot :Nickname is already in use'' then
        Some \<lparr>m_Source = ''srv'', m_Target = ''*'', m_Command = ''433'',
              m_Args = [''bot'', ''Nickname is already in use'']\<rparr>
      else if line = '':srv 001 bot :Welcome'' then
        Some \<lparr>m_Source = ''srv'', m_Target = ''bot'', m_Command = ''001'', m_Args = [''Welcome'']\<rparr>
      else if line = '':nick!user@host PRIVMSG'' then
        Some \<lparr>m_Source = ''nick!user@host'', m_Target = [], m_Command = ''PRIVMSG'', m_Args = []\<rparr>
      else None)"

definition sample_ParseCommand :: "IRCMessage \<Rightarrow> IRCCommand option" where
  "sample_ParseCommand s =
     (if m_Args s = [''!say #chan hello world''] then
        Some \<lparr>c_Source = m_Source s, c_Target = m_Target s, c_Command = ''!say'',
              c_Args = [''#chan'', ''hello'', ''world'']\<rparr>
      else if m_Args s = [''!say''] then
        Some \<lparr>c_Source = m_Source s, c_Target = m_Target s, c_Command = ''!say'', c_Args = []\<rparr>
      else None)"

definition sample_plugin :: Plugin where
  "sample_plugin = \<lparr>String = ''logger'', Usage = (\<lambda>cmd. ''usage: '' @ cmd)\<rparr>"

definition sample_client :: IRCClient where
  "sample_client =
     \<lparr>plugins = [(''logger'', sample_plugin)],
      handlers = Map.empty,
      conf = [(''Server'', ''nick'') \<mapsto> ''bot'', (''Server'', ''trigger'') \<mapsto> ''!'',
              (''Server'', ''ident'') \<mapsto> ''mett'', (''Server'', ''realname'') \<mapsto> ''Mett Bot'',
              (''Server'', ''host'') \<mapsto> ''irc.example.org:6667''],
      auth = (\<lambda>host. if host = ''nick!user@host'' then 1000 else 0),
      effects = []\<rparr>"

definition sample_conn_Connect :: "string \<Rightarrow> error option" where
  \<comment> \<open>a transport that connects to every host\<close>
  "sample_conn_Connect host = None"

definition two_plugin_client :: IRCClient where
  "two_plugin_client = sample_client\<lparr>plugins := [(''logger'', sample_plugin), (''admin'', AdminPlugin)]\<rparr>"

definition admin_client :: IRCClient where
  \<comment> \<open>the sample client after the admin plugin's setup; the sender \<open>nick!user@host\<close> has
      access level 1000\<close>
  "admin_client = AdminPlugin_Register sample_client"

definition guest_client :: IRCClient where
  \<comment> \<open>the same, with access level 0 for every hostmask\<close>
  "guest_client = AdminPlugin_Register (sample_client\<lparr>auth := (\<lambda>host. 0)\<rparr>)"

definition spec_sanitize :: "string \<Rightarrow> string" where
  \<comment> \<open>the outbound line as the spec words it: carriage returns and line feeds removed, then
      at most 510 bytes kept\<close>
  "spec_sanitize line = take 510 (filter (\<lambda>c. c \<noteq> CHR 0x0D \<and> c \<noteq> CHR 0x0A) line)"

section \<open>Basic facts about effects and state\<close>

lemma emit_effects: "effects (emit e ic) = effects ic @ [e]"
  by (simp add: emit_def)

lemma emit_fields:
  "plugins (emit e ic) = plugins ic" "handlers (emit e ic) = handlers ic"
  "conf (emit e ic) = conf ic" "auth (emit e ic) = auth ic"
  by (simp_all add: emit_def)

lemma GetStringOption_emit: "GetStringOption (emit e ic) a b = GetStringOption ic a b"
  by (simp add: GetStringOption_def emit_fields)

lemma GetAccessLevel_emit: "GetAccessLevel (emit e ic) host = GetAccessLevel ic host"
  by (simp add: GetAccessLevel_def emit_fields)

lemma lines_sent_append: "lines_sent (es @ fs) = lines_sent es @ lines_sent fs"
  by (induction es rule: lines_sent.induct) simp_all

lemma Replace_CR_LF:
  "strings_Replace1 (strings_Replace1 line (CHR 0x0D) CHR '' '') (CHR 0x0A) CHR '' '' =
     map (\<lambda>c. if c = CHR 0x0D \<or> c = CHR 0x0A then CHR '' '' else c) line"
  by (induction line) (simp_all add: strings_Replace1_def)

lemma SendLine_emit:
  "SendLine ic line =
     emit (Output (take 510
       (map (\<lambda>c. if c = CHR 0x0D \<or> c = CHR 0x0A then CHR '' '' else c) line))) ic"
proof -
  let ?l = "map (\<lambda>c. if c = CHR 0x0D \<or> c = CHR 0x0A then CHR '' '' else c) line"
  have "(if length ?l > 510 then take 510 ?l else ?l) = take 510 ?l"
    by simp
  then show ?thesis
    by (simp add: SendLine_def Let_def Replace_CR_LF send_Output_def del: length_map)
qed

lemma Reply_emit:
  "Reply ic cmd message =
     emit (Output (take 510 (map (\<lambda>c. if c = CHR 0x0D \<or> c = CHR 0x0A then CHR '' '' else c)
          (''NOTICE '' @
           (if c_Target cmd \<noteq> GetStringOption ic ''Server'' ''nick'' then c_Target cmd
            else takeWhile (\<lambda>c. c \<noteq> CHR ''!'') (c_Source cmd))
           @ '' :'' @ message)))) ic"
  by (simp add: Reply_def Let_def SendLine_emit SplitN2_first_def)

lemma Shutdown_range_effects:
  "effects (Shutdown_range ps ic) = effects ic @ map (\<lambda>p. call_Unregister (snd p)) ps"
  by (induction ps ic rule: Shutdown_range.induct) (simp_all add: emit_effects)

lemma ProcessLine_range_effects:
  "effects (ProcessLine_range ps s ic) = effects ic @ map (\<lambda>p. go_ProcessLine (snd p) s) ps"
  by (induction ps s ic rule: ProcessLine_range.induct) (simp_all add: emit_effects)

lemma ProcessLine_range_fields:
  "plugins (ProcessLine_range ps s ic) = plugins ic"
  "handlers (ProcessLine_range ps s ic) = handlers ic"
  "conf (ProcessLine_range ps s ic) = conf ic"
  "auth (ProcessLine_range ps s ic) = auth ic"
  by (induction ps s ic rule: ProcessLine_range.induct) (simp_all add: emit_fields)

lemma lines_sent_ProcessLine: "lines_sent (map (\<lambda>p. go_ProcessLine (snd p) s) ps) = []"
  by (induction ps) simp_all

lemma strings_Index_0: "strings_Index s sub = 0 \<longleftrightarrow> prefix sub s"
proof (cases s)
  case Nil
  then show ?thesis by simp
next
  case (Cons c t)
  have "(let i = strings_Index t sub in if i < 0 then - 1 else i + 1) \<noteq> 0"
    by (simp add: Let_def)
  with Cons show ?thesis by simp
qed

lemma GetStringOption_ProcessLine:
  "GetStringOption (ProcessLine_range ps s ic) a b = GetStringOption ic a b"
  by (simp add: GetStringOption_def ProcessLine_range_fields)

lemma Connect_loop_effects:
  "\<exists>es. effects (snd (Connect_loop P nick ls closed ic)) = effects ic @ es"
proof (induction ls arbitrary: nick ic)
  case Nil
  then show ?case by (simp split: option.splits)
next
  case (Cons l ls)
  show ?case
  proof (cases "P l")
    case None
    then show ?thesis using Cons.IH by simp
  next
    case (Some s)
    let ?ic1 = "ProcessLine_range (plugins ic) s ic"
    let ?ic3 = "send_Output (''NICK '' @ nick @ ''_'')
                  (SetStringOption ?ic1 ''Server'' ''nick'' (nick @ ''_''))"
    have e1: "effects ?ic1 = effects ic @ map (\<lambda>p. go_ProcessLine (snd p) s) (plugins ic)"
      by (simp add: ProcessLine_range_effects)
    have e3: "effects ?ic3 = effects ic @ map (\<lambda>p. go_ProcessLine (snd p) s) (plugins ic)
                @ [Output (''NICK '' @ nick @ ''_'')]"
      by (simp add: send_Output_def emit_effects SetStringOption_def e1)
    consider (a) "m_Command s = ''433''" | (b) "m_Command s \<noteq> ''433''" "m_Command s = ''001''"
      | (c) "m_Command s \<noteq> ''433''" "m_Command s \<noteq> ''001''"
      by blast
    then show ?thesis
    proof cases
      case a
      have step: "Connect_loop P nick (l # ls) closed ic =
          Connect_loop P (nick @ ''_'') ls closed ?ic3"
        using a Some by (simp add: Let_def)
      from Cons.IH [of "nick @ ''_''" ?ic3] obtain es where
        "effects (snd (Connect_loop P (nick @ ''_'') ls closed ?ic3)) = effects ?ic3 @ es" ..
      then show ?thesis unfolding step e3 by simp
    next
      case b
      with Some show ?thesis by (simp add: Let_def e1)
    next
      case c
      have step: "Connect_loop P nick (l # ls) closed ic = Connect_loop P nick ls closed ?ic1"
        using c Some by (simp add: Let_def)
      from Cons.IH [of nick ?ic1] obtain es where
        "effects (snd (Connect_loop P nick ls closed ?ic1)) = effects ?ic1 @ es" ..
      then show ?thesis unfolding step e1 by simp
    qed
  qed
qed

lemma Connect_loop_outcome:
  "fst (Connect_loop P nick ls closed ic) =
     (if \<exists>l\<in>set ls. \<exists>s. P l = Some s \<and> m_Command s = ''001'' then Returned None
      else case closed of Some e \<Rightarrow> Returned (Some e) | None \<Rightarrow> Blocked)"
proof (induction ls arbitrary: nick ic)
  case Nil
  then show ?case by (simp split: option.splits)
next
  case (Cons l ls)
  show ?case
  proof (cases "P l")
    case None
    then show ?thesis using Cons.IH by simp
  next
    case (Some s)
    then show ?thesis using Cons.IH by (auto simp: Let_def)
  qed
qed

lemma AdminPlugin_Register_handlers:
  "handlers (AdminPlugin_Register cl) v =
     (case handlers cl v of
        Some h \<Rightarrow> Some h
      | None \<Rightarrow>
          if v = ''inviteme'' then
            Some \<lparr>Handler = AdminPlugin, h_Command = v, Minparams = 1, Minaccess = 400\<rparr>
          else if v = ''say'' \<or> v = ''notice'' \<or> v = ''action'' then
            Some \<lparr>Handler = AdminPlugin, h_Command = v, Minparams = 2, Minaccess = 500\<rparr>
          else None)"
  by (simp add: AdminPlugin_Register_def RegisterCommandHandler_def Let_def
      split: option.splits)

lemma dispatch_routes:
  assumes "dispatchHandlers P PC ic inp = Inr ic'"
    and "go_ProcessCommand p c \<in> set (effects ic')"
    and "go_ProcessCommand p c \<notin> set (effects ic)"
  shows "\<exists>h. handlers ic (c_Command c) = Some h \<and> Handler h = p \<and>
              Minparams h \<le> int (length (c_Args c))"
  using assms unfolding dispatchHandlers_def
  by (auto simp: Let_def Reply_emit emit_effects ProcessLine_range_effects
      ProcessLine_range_fields split: option.splits list.splits if_splits)

lemma AdminPlugin_ProcessCommand_ok:
  assumes "c_Args c \<noteq> []"
  shows "\<exists>st'. AdminPlugin_ProcessCommand st c = Inr st'"
proof -
  from assms obtain a as where "c_Args c = a # as"
    by (cases "c_Args c") auto
  then show ?thesis
    by (simp add: AdminPlugin_ProcessCommand_def index0_def slice1_def)
qed

lemma AdminPlugin_Register_owned:
  assumes "\<forall>v h. handlers ic v = Some h \<longrightarrow> Handler h \<noteq> AdminPlugin"
  shows "\<forall>v h. handlers (AdminPlugin_Register ic) v = Some h \<and> Handler h = AdminPlugin \<longrightarrow>
           (\<exists>cl. handlers cl v = None \<and> handlers (AdminPlugin_Register cl) v = Some h)"
proof (intro allI impI)
  fix v h
  assume a: "handlers (AdminPlugin_Register ic) v = Some h \<and> Handler h = AdminPlugin"
  with assms have "handlers ic v = None"
    by (cases "handlers ic v") (auto simp: AdminPlugin_Register_handlers)
  with a show "\<exists>cl. handlers cl v = None \<and> handlers (AdminPlugin_Register cl) v = Some h"
    by blast
qed

lemma RegisterCommandHandler_owned:
  assumes "\<forall>v h. handlers ic v = Some h \<and> Handler h = AdminPlugin \<longrightarrow>
             (\<exists>cl. handlers cl v = None \<and> handlers (AdminPlugin_Register cl) v = Some h)"
    and "plugin \<noteq> AdminPlugin"
  shows "\<forall>v h. handlers (snd (RegisterCommandHandler ic command minparams minaccess plugin)) v = Some h
             \<and> Handler h = AdminPlugin \<longrightarrow>
             (\<exists>cl. handlers cl v = None \<and> handlers (AdminPlugin_Register cl) v = Some h)"
  using assms
  by (auto simp: RegisterCommandHandler_def split: option.splits if_splits)

lemma RegisterPlugin_names:
  assumes "distinct (map fst (plugins ic))" "\<forall>np\<in>set (plugins ic). fst np = String (snd np)"
    and "plugins (p_Register ic) = plugins ic"
  shows "distinct (map fst (plugins (snd (RegisterPlugin ic p_Register p)))) \<and>
         (\<forall>np\<in>set (plugins (snd (RegisterPlugin ic p_Register p))). fst np = String (snd np))"
  using assms
  by (auto simp: RegisterPlugin_def Let_def map_of_eq_None_iff split: option.splits)

lemma sample_client_options:
  "GetStringOption sample_client ''Server'' ''trigger'' = ''!''"
  "GetStringOption sample_client ''Server'' ''nick'' = ''bot''"
  "GetStringOption sample_client ''Server'' ''ident'' = ''mett''"
  "GetStringOption sample_client ''Server'' ''realname'' = ''Mett Bot''"
  "GetStringOption sample_client ''Server'' ''host'' = ''irc.example.org:6667''"
  by (simp_all add: GetStringOption_def sample_client_def)

lemma AdminPlugin_Register_fields:
  "plugins (AdminPlugin_Register cl) = plugins cl"
  "conf (AdminPlugin_Register cl) = conf cl"
  "auth (AdminPlugin_Register cl) = auth cl"
  "effects (AdminPlugin_Register cl) = effects cl"
  by (simp_all add: AdminPlugin_Register_def RegisterCommandHandler_def Let_def
      split: option.splits)

lemma admin_client_facts:
  "GetStringOption admin_client ''Server'' ''trigger'' = ''!''"
  "GetStringOption admin_client ''Server'' ''nick'' = ''bot''"
  "plugins admin_client = [(''logger'', sample_plugin)]"
  "effects admin_client = []"
  "GetAccessLevel admin_client ''nick!user@host'' = 1000"
  "handlers admin_client ''say'' =
     Some \<lparr>Handler = AdminPlugin, h_Command = ''say'', Minparams = 2, Minaccess = 500\<rparr>"
  by (simp_all add: admin_client_def GetStringOption_def GetAccessLevel_def
      AdminPlugin_Register_fields AdminPlugin_Register_handlers sample_client_def)

lemma guest_client_facts:
  "GetStringOption guest_client ''Server'' ''trigger'' = ''!''"
  "GetStringOption guest_client ''Server'' ''nick'' = ''bot''"
  "plugins guest_client = [(''logger'', sample_plugin)]"
  "effects guest_client = []"
  "GetAccessLevel guest_client host = 0"
  "handlers guest_client ''say'' =
     Some \<lparr>Handler = AdminPlugin, h_Command = ''say'', Minparams = 2, Minaccess = 500\<rparr>"
  by (simp_all add: guest_client_def GetStringOption_def GetAccessLevel_def
      AdminPlugin_Register_fields AdminPlugin_Register_handlers sample_client_def)

section \<open>The checks in front of a command handler\<close>

text \<open>
  Claim C1. A line that parses to a message-delivery event starting with the trigger, whose
  command has a registered handler \<open>h\<close>, is first fanned out to every plugin's line
  observer. After that exactly one thing happens. If \<open>Minaccess h > 0\<close> and the access
  level of the command's source is below it, one line is sent, the authorization-denied
  notice, and no handler is started. Otherwise, if the command has fewer arguments than
  \<open>Minparams h\<close>, one line is sent, the notice carrying the usage string of the handler's
  plugin, and no handler is started. Otherwise the handler's \<^verbatim>\<open>ProcessCommand\<close> is started
  with the command and nothing is sent. The access check comes first: a command that fails
  both checks gets the authorization-denied notice.
\<close>

theorem dispatch_access_before_params:
  assumes parsed: "ParseServerLine inp = Some s"
    and verb: "m_Command s = ''PRIVMSG'' \<or> m_Command s = ''NOTICE''"
    and args: "m_Args s = a0 # as"
    and trig: "strings_Index a0 (GetStringOption ic ''Server'' ''trigger'') = 0"
    and cmd: "ParseCommand s = Some c0"
    and nonempty: "c_Command c0 \<noteq> []"
    and fits: "length (GetStringOption ic ''Server'' ''trigger'') \<le> length (c_Command c0)"
    and stripped: "c = c0\<lparr>c_Command := drop (length (GetStringOption ic ''Server'' ''trigger'')) (c_Command c0)\<rparr>"
    and registered: "handlers ic (c_Command c) = Some h"
  shows "\<exists>ic'. dispatchHandlers ParseServerLine ParseCommand ic inp = Inr ic' \<and>
     effects ic' = effects ic @ map (\<lambda>p. go_ProcessLine (snd p) s) (plugins ic) @
       (if Minaccess h > 0 \<and> GetAccessLevel ic (c_Source c) < Minaccess h then
          [Output (take 510 (map (\<lambda>c. if c = CHR 0x0D \<or> c = CHR 0x0A then CHR '' '' else c)
             (''NOTICE '' @
              (if c_Target c \<noteq> GetStringOption ic ''Server'' ''nick'' then c_Target c
               else takeWhile (\<lambda>c. c \<noteq> CHR ''!'') (c_Source c))
              @ '' :You are not authorized to do that.'')))]
        else if int (length (c_Args c)) < Minparams h then
          [Output (take 510 (map (\<lambda>c. if c = CHR 0x0D \<or> c = CHR 0x0A then CHR '' '' else c)
             (''NOTICE '' @
              (if c_Target c \<noteq> GetStringOption ic ''Server'' ''nick'' then c_Target c
               else takeWhile (\<lambda>c. c \<noteq> CHR ''!'') (c_Source c))
              @ '' :'' @ Usage (Handler h) (c_Command c))))]
        else [go_ProcessCommand (Handler h) c])"
proof -
  let ?ic1 = "ProcessLine_range (plugins ic) s ic"
  have verb': "\<not> (m_Command s \<noteq> ''PRIVMSG'' \<and> m_Command s \<noteq> ''NOTICE'')"
    using verb by simp
  have fits': "\<not> length (c_Command c0) < length (GetStringOption ic ''Server'' ''trigger'')"
    using fits by simp
  have disp: "dispatchHandlers ParseServerLine ParseCommand ic inp =
     (if Minaccess h > 0 \<and> GetAccessLevel ?ic1 (c_Source c) < Minaccess h
      then Inr (Reply ?ic1 c ''You are not authorized to do that.'')
      else if int (length (c_Args c)) < Minparams h
      then Inr (Reply ?ic1 c (GetUsage ?ic1 (c_Command c)))
      else Inr (emit (go_ProcessCommand (Handler h) c) ?ic1))"
    unfolding dispatchHandlers_def
    using registered
    by (simp only: parsed option.case Let_def verb' if_False args list.case trig
        GetStringOption_ProcessLine cmd nonempty fits' length_0_conv
        ProcessLine_range_fields stripped [symmetric]) simp
  have usage: "GetUsage ?ic1 (c_Command c) = Usage (Handler h) (c_Command c)"
    using registered by (simp add: GetUsage_def ProcessLine_range_fields)
  show ?thesis
    unfolding disp
    by (simp add: Reply_emit emit_effects ProcessLine_range_effects usage
        GetStringOption_ProcessLine GetAccessLevel_def ProcessLine_range_fields)
qed

text \<open>
  On the sample data: the sender of \<open>!say\<close> without arguments gets the authorization-denied
  notice when the access level is 0, and the usage notice when it is 1000; with two or more
  arguments and access level 1000 the handler is started.
\<close>

theorem dispatch_access_before_params_witness:
  "sample_ParseServerLine '':nick!user@host PRIVMSG #chan :!say'' =
     Some \<lparr>m_Source = ''nick!user@host'', m_Target = ''#chan'', m_Command = ''PRIVMSG'',
           m_Args = [''!say'']\<rparr> \<and>
   sample_ParseCommand
     \<lparr>m_Source = ''nick!user@host'', m_Target = ''#chan'', m_Command = ''PRIVMSG'',
      m_Args = [''!say'']\<rparr> =
     Some \<lparr>c_Source = ''nick!user@host'', c_Target = ''#chan'', c_Command = ''!say'',
           c_Args = []\<rparr> \<and>
   handlers guest_client ''say'' =
     Some \<lparr>Handler = AdminPlugin, h_Command = ''say'', Minparams = 2, Minaccess = 500\<rparr> \<and>
   (\<exists>ic'. dispatchHandlers sample_ParseServerLine sample_ParseCommand guest_client
             '':nick!user@host PRIVMSG #chan :!say'' = Inr ic' \<and>
          effects ic' =
            [go_ProcessLine sample_plugin
               \<lparr>m_Source = ''nick!user@host'', m_Target = ''#chan'', m_Command = ''PRIVMSG'',
                m_Args = [''!say'']\<rparr>,
             Output ''NOTICE #chan :You are not authorized to do that.'']) \<and>
   (\<exists>ic'. dispatchHandlers sample_ParseServerLine sample_ParseCommand admin_client
             '':nick!user@host PRIVMSG #chan :!say'' = Inr ic' \<and>
          effects ic' =
            [go_ProcessLine sample_plugin
               \<lparr>m_Source = ''nick!user@host'', m_Target = ''#chan'', m_Command = ''PRIVMSG'',
                m_Args = [''!say'']\<rparr>,
             Output ''NOTICE #chan :say <channelname> <message>'']) \<and>
   (\<exists>ic'. dispatchHandlers sample_ParseServerLine sample_ParseCommand admin_client
             '':nick!user@host PRIVMSG #chan :!say #chan hello world'' = Inr ic' \<and>
          effects ic' =
            [go_ProcessLine sample_plugin
               \<lparr>m_Source = ''nick!user@host'', m_Target = ''#chan'', m_Command = ''PRIVMSG'',
                m_Args = [''!say #chan hello world'']\<rparr>,
             go_ProcessCommand AdminPlugin
               \<lparr>c_Source = ''nick!user@host'', c_Target = ''#chan'', c_Command = ''say'',
                c_Args = [''#chan'', ''hello'', ''world'']\<rparr>])"
proof -
  let ?s = "\<lparr>m_Source = ''nick!user@host'', m_Target = ''#chan'', m_Command = ''PRIVMSG'',
           m_Args = [''!say'']\<rparr>"
  let ?c0 = "\<lparr>c_Source = ''nick!user@host'', c_Target = ''#chan'', c_Command = ''!say'',
            c_Args = []\<rparr>"
  let ?h = "\<lparr>Handler = AdminPlugin, h_Command = ''say'', Minparams = 2, Minaccess = 500\<rparr>"
  have h1: "sample_ParseServerLine '':nick!user@host PRIVMSG #chan :!say'' = Some ?s"
    by (simp add: sample_ParseServerLine_def)
  have h2: "m_Command ?s = ''PRIVMSG'' \<or> m_Command ?s = ''NOTICE''"
    by simp
  have h3: "m_Args ?s = ''!say'' # []"
    by simp
  have h5: "sample_ParseCommand ?s = Some ?c0"
    by (simp add: sample_ParseCommand_def)
  have h6: "c_Command ?c0 \<noteq> []"
    by simp
  have g4: "strings_Index ''!say'' (GetStringOption guest_client ''Server'' ''trigger'') = 0"
    by (simp add: guest_client_facts)
  have g7: "length (GetStringOption guest_client ''Server'' ''trigger'') \<le> length (c_Command ?c0)"
    by (simp add: guest_client_facts)
  have g9: "handlers guest_client (c_Command (?c0\<lparr>c_Command :=
              drop (length (GetStringOption guest_client ''Server'' ''trigger'')) (c_Command ?c0)\<rparr>))
            = Some ?h"
    by (simp add: guest_client_facts)
  have a4: "strings_Index ''!say'' (GetStringOption admin_client ''Server'' ''trigger'') = 0"
    by (simp add: admin_client_facts)
  have a7: "length (GetStringOption admin_client ''Server'' ''trigger'') \<le> length (c_Command ?c0)"
    by (simp add: admin_client_facts)
  have a9: "handlers admin_client (c_Command (?c0\<lparr>c_Command :=
              drop (length (GetStringOption admin_client ''Server'' ''trigger'')) (c_Command ?c0)\<rparr>))
            = Some ?h"
    by (simp add: admin_client_facts)
  have denied: "\<exists>ic'. dispatchHandlers sample_ParseServerLine sample_ParseCommand guest_client
             '':nick!user@host PRIVMSG #chan :!say'' = Inr ic' \<and>
          effects ic' = [go_ProcessLine sample_plugin ?s,
             Output ''NOTICE #chan :You are not authorized to do that.'']"
    using dispatch_access_before_params [where ParseServerLine = sample_ParseServerLine
        and ParseCommand = sample_ParseCommand, OF h1 h2 h3 g4 h5 h6 g7 refl g9]
    by (simp add: guest_client_facts)
  have usage: "\<exists>ic'. dispatchHandlers sample_ParseServerLine sample_ParseCommand admin_client
             '':nick!user@host PRIVMSG #chan :!say'' = Inr ic' \<and>
          effects ic' = [go_ProcessLine sample_plugin ?s,
             Output ''NOTICE #chan :say <channelname> <message>'']"
    using dispatch_access_before_params [where ParseServerLine = sample_ParseServerLine
        and ParseCommand = sample_ParseCommand, OF h1 h2 h3 a4 h5 h6 a7 refl a9]
    by (simp add: admin_client_facts AdminPlugin_def AdminPlugin_Usage_def)
  let ?t = "\<lparr>m_Source = ''nick!user@host'', m_Target = ''#chan'', m_Command = ''PRIVMSG'',
           m_Args = [''!say #chan hello world'']\<rparr>"
  let ?d0 = "\<lparr>c_Source = ''nick!user@host'', c_Target = ''#chan'', c_Command = ''!say'',
            c_Args = [''#chan'', ''hello'', ''world'']\<rparr>"
  have i1: "sample_ParseServerLine '':nick!user@host PRIVMSG #chan :!say #chan hello world'' = Some ?t"
    by (simp add: sample_ParseServerLine_def)
  have i2: "m_Command ?t = ''PRIVMSG'' \<or> m_Command ?t = ''NOTICE''"
    by simp
  have i3: "m_Args ?t = ''!say #chan hello world'' # []"
    by simp
  have i4: "strings_Index ''!say #chan hello world''
              (GetStringOption admin_client ''Server'' ''trigger'') = 0"
    by (simp add: admin_client_facts)
  have i5: "sample_ParseCommand ?t = Some ?d0"
    by (simp add: sample_ParseCommand_def)
  have i6: "c_Command ?d0 \<noteq> []"
    by simp
  have i7: "length (GetStringOption admin_client ''Server'' ''trigger'') \<le> length (c_Command ?d0)"
    by (simp add: admin_client_facts)
  have i9: "handlers admin_client (c_Command (?d0\<lparr>c_Command :=
              drop (length (GetStringOption admin_client ''Server'' ''trigger'')) (c_Command ?d0)\<rparr>))
            = Some ?h"
    by (simp add: admin_client_facts)
  have invoked: "\<exists>ic'. dispatchHandlers sample_ParseServerLine sample_ParseCommand admin_client
             '':nick!user@host PRIVMSG #chan :!say #chan hello world'' = Inr ic' \<and>
          effects ic' = [go_ProcessLine sample_plugin ?t,
             go_ProcessCommand AdminPlugin
               \<lparr>c_Source = ''nick!user@host'', c_Target = ''#chan'', c_Command = ''say'',
                c_Args = [''#chan'', ''hello'', ''world'']\<rparr>]"
    using dispatch_access_before_params [where ParseServerLine = sample_ParseServerLine
        and ParseCommand = sample_ParseCommand, OF i1 i2 i3 i4 i5 i6 i7 refl i9]
    by (simp add: admin_client_facts)
  show ?thesis
    using h1 h5 denied usage invoked by (simp add: guest_client_facts)
qed

section \<open>Outbound lines\<close>

text \<open>
  Claim C2, as amended. \<^verbatim>\<open>SendLine\<close> puts exactly one line on the output queue: the given
  line in which every carriage return and every line feed is replaced by a space (the
  characters are not deleted, the other bytes keep their positions), cut to its first 510
  bytes.
\<close>

theorem SendLine_replaces_then_truncates:
  "effects (SendLine ic line) =
     effects ic @
       [Output (take 510
          (map (\<lambda>c. if c = CHR 0x0D \<or> c = CHR 0x0A then CHR '' '' else c) line))]"
  by (simp add: SendLine_emit emit_effects)

text \<open>
  The claim as the spec words it has the two characters removed. On the three bytes
  \<open>a\<close>, line feed, \<open>b\<close> that is the line \<open>ab\<close>; the source sends \<open>a b\<close>.
\<close>

theorem SendLine_keeps_a_space:
  "effects (SendLine sample_client [CHR ''a'', CHR 0x0A, CHR ''b'']) = [Output ''a b''] \<and>
   spec_sanitize [CHR ''a'', CHR 0x0A, CHR ''b''] = ''ab''"
  by (simp add: SendLine_emit emit_effects sample_client_def spec_sanitize_def)

section \<open>Replies\<close>

text \<open>
  Claim C7. \<^verbatim>\<open>Reply\<close> puts exactly one line on the output queue, a \<^verbatim>\<open>NOTICE\<close>. Its target
  is the command's \<^verbatim>\<open>Target\<close> when that differs from the client's own current nickname
  (the option \<^verbatim>\<open>nick\<close> of section \<^verbatim>\<open>Server\<close>), and otherwise the text of the command's
  \<^verbatim>\<open>Source\<close> before its first \<^verbatim>\<open>!\<close>. The line goes through \<^verbatim>\<open>SendLine\<close>, which replaces
  carriage returns and line feeds and cuts after 510 bytes.
\<close>

theorem Reply_target:
  "effects (Reply ic cmd message) =
     effects ic @
       [Output (take 510 (map (\<lambda>c. if c = CHR 0x0D \<or> c = CHR 0x0A then CHR '' '' else c)
          (''NOTICE '' @
           (if c_Target cmd \<noteq> GetStringOption ic ''Server'' ''nick'' then c_Target cmd
            else takeWhile (\<lambda>c. c \<noteq> CHR ''!'') (c_Source cmd))
           @ '' :'' @ message)))]"
  by (simp add: Reply_emit emit_effects)

theorem Reply_target_witness:
  "effects (Reply sample_client
      \<lparr>c_Source = ''nick!user@host'', c_Target = ''#chan'', c_Command = ''say'', c_Args = []\<rparr>
      ''hello'') = [Output ''NOTICE #chan :hello''] \<and>
   effects (Reply sample_client
      \<lparr>c_Source = ''nick!user@host'', c_Target = ''bot'', c_Command = ''say'', c_Args = []\<rparr>
      ''hello'') = [Output ''NOTICE nick :hello'']"
  using
    Reply_target [of sample_client
      "\<lparr>c_Source = ''nick!user@host'', c_Target = ''#chan'', c_Command = ''say'', c_Args = []\<rparr>"
      "''hello''"]
    Reply_target [of sample_client
      "\<lparr>c_Source = ''nick!user@host'', c_Target = ''bot'', c_Command = ''say'', c_Args = []\<rparr>"
      "''hello''"]
  by (simp add: sample_client_options) (simp add: sample_client_def)

section \<open>The unchecked first argument\<close>

text \<open>
  Claim C8. \<^verbatim>\<open>dispatchHandlers\<close> reads \<^verbatim>\<open>s.Args[0]\<close> of every parsed event whose verb is
  \<^verbatim>\<open>PRIVMSG\<close> or \<^verbatim>\<open>NOTICE\<close> without looking at the length of \<^verbatim>\<open>Args\<close>: the dispatch of a
  parsed line ends in the index-out-of-range panic exactly when the verb is one of the two
  and \<^verbatim>\<open>Args\<close> is empty. So the dispatch is free of that panic only if every such event has
  at least one argument.
\<close>

theorem dispatch_Args0_unchecked:
  assumes "ParseServerLine inp = Some s"
  shows "dispatchHandlers ParseServerLine ParseCommand ic inp = Inl IndexOutOfRange \<longleftrightarrow>
     (m_Command s = ''PRIVMSG'' \<or> m_Command s = ''NOTICE'') \<and> m_Args s = []"
  using assms unfolding dispatchHandlers_def
  by (auto simp: Let_def split: list.splits option.splits)

theorem dispatch_Args0_unchecked_witness:
  "sample_ParseServerLine '':nick!user@host PRIVMSG'' =
     Some \<lparr>m_Source = ''nick!user@host'', m_Target = [], m_Command = ''PRIVMSG'', m_Args = []\<rparr> \<and>
   dispatchHandlers sample_ParseServerLine sample_ParseCommand admin_client
     '':nick!user@host PRIVMSG'' = Inl IndexOutOfRange"
proof -
  have h: "sample_ParseServerLine '':nick!user@host PRIVMSG'' =
     Some \<lparr>m_Source = ''nick!user@host'', m_Target = [], m_Command = ''PRIVMSG'', m_Args = []\<rparr>"
    by (simp add: sample_ParseServerLine_def)
  from dispatch_Args0_unchecked [where ParseServerLine = sample_ParseServerLine
      and ParseCommand = sample_ParseCommand and ic = admin_client, OF h] h
  show ?thesis by simp
qed

section \<open>Duplicate command handlers\<close>

text \<open>
  Claim C5. \<^verbatim>\<open>RegisterCommandHandler\<close> for a verb that already has an owner returns the
  duplicate-handler error, whose message names the owning plugin, and leaves the client
  (and so the handler table) as it was. For every pair of registrations of one verb that
  was free: the first succeeds and binds its handler, the second fails with the error
  naming the first plugin and changes nothing, so the first handler stays bound.
\<close>

theorem RegisterCommandHandler_duplicate:
  "(handlers ic command = Some h \<longrightarrow>
      RegisterCommandHandler ic command minparams minaccess plugin =
        (Some (errors_New (''Handler is already registered by plugin: '' @ String (Handler h))), ic)) \<and>
   (handlers ic command = None \<longrightarrow>
      (case RegisterCommandHandler ic command minparams minaccess plugin of
         (e1, ic1) \<Rightarrow>
           e1 = None \<and>
           handlers ic1 command =
             Some \<lparr>Handler = plugin, h_Command = command, Minparams = minparams,
                   Minaccess = minaccess\<rparr> \<and>
           RegisterCommandHandler ic1 command minparams2 minaccess2 plugin2 =
             (Some (errors_New (''Handler is already registered by plugin: '' @ String plugin)),
              ic1)))"
  by (simp add: RegisterCommandHandler_def)

theorem RegisterCommandHandler_duplicate_witness:
  "handlers admin_client ''say'' =
     Some \<lparr>Handler = AdminPlugin, h_Command = ''say'', Minparams = 2, Minaccess = 500\<rparr> \<and>
   RegisterCommandHandler admin_client ''say'' 0 0 sample_plugin =
     (Some (errors_New ''Handler is already registered by plugin: admin''), admin_client) \<and>
   handlers sample_client ''say'' = None \<and>
   (case RegisterCommandHandler sample_client ''say'' 2 500 AdminPlugin of
      (e1, ic1) \<Rightarrow>
        e1 = None \<and>
        RegisterCommandHandler ic1 ''say'' 0 0 sample_plugin =
          (Some (errors_New ''Handler is already registered by plugin: admin''), ic1))"
proof -
  have a: "handlers admin_client ''say'' =
     Some \<lparr>Handler = AdminPlugin, h_Command = ''say'', Minparams = 2, Minaccess = 500\<rparr>"
    by (rule admin_client_facts)
  have b: "handlers sample_client ''say'' = None"
    by (simp add: sample_client_def)
  from RegisterCommandHandler_duplicate [of admin_client "''say''"
      "\<lparr>Handler = AdminPlugin, h_Command = ''say'', Minparams = 2, Minaccess = 500\<rparr>"
      0 0 sample_plugin]
    RegisterCommandHandler_duplicate [of sample_client "''say''" _ 2 500 AdminPlugin 0 0 sample_plugin]
    a b
  show ?thesis
    by (simp add: AdminPlugin_def split: prod.splits)
qed

section \<open>Disconnecting\<close>

lemma count_list_distinct: "distinct xs \<Longrightarrow> x \<in> set xs \<Longrightarrow> count_list xs x = 1"
  by (induction xs) auto

lemma count_list_Unregister:
  "count_list (map (\<lambda>p. call_Unregister (snd p)) ps) (call_Unregister q) = count_list (map snd ps) q"
  by (induction ps) simp_all

lemma distinct_plugins:
  assumes "distinct (map fst ps)" "\<forall>np\<in>set ps. fst np = String (snd np)"
  shows "distinct (map snd ps)"
proof -
  from assms(2) have "map fst ps = map String (map snd ps)"
    by simp
  with assms(1) show ?thesis
    by (simp add: distinct_map del: map_map)
qed

text \<open>
  Claim C6. \<^verbatim>\<open>Disconnect\<close> does, in this order and nothing else: one call of
  \<^verbatim>\<open>Unregister\<close> for each entry of the plugin table, then the send of the quit line, then
  the close of the transport. In a plugin table as \<^verbatim>\<open>RegisterPlugin\<close> builds it (names
  distinct, each plugin under its own name) every registered plugin is thereby unregistered
  exactly once.
\<close>

theorem Disconnect_order:
  "effects (Disconnect ic quitmsg) =
     effects ic @ map (\<lambda>p. call_Unregister (snd p)) (plugins ic)
       @ [Output (''QUIT :'' @ quitmsg), conn_Quit] \<and>
   (distinct (map fst (plugins ic)) \<and> (\<forall>np\<in>set (plugins ic). fst np = String (snd np)) \<longrightarrow>
      (\<forall>np\<in>set (plugins ic).
         count_list (effects (Disconnect ic quitmsg)) (call_Unregister (snd np)) =
           count_list (effects ic) (call_Unregister (snd np)) + 1))"
proof -
  have eq: "effects (Disconnect ic quitmsg) =
     effects ic @ map (\<lambda>p. call_Unregister (snd p)) (plugins ic)
       @ [Output (''QUIT :'' @ quitmsg), conn_Quit]"
    by (simp add: Disconnect_def Shutdown_def Let_def send_Output_def emit_effects
        Shutdown_range_effects)
  have once: "count_list (effects (Disconnect ic quitmsg)) (call_Unregister (snd np)) =
           count_list (effects ic) (call_Unregister (snd np)) + 1"
    if d: "distinct (map fst (plugins ic))" "\<forall>np\<in>set (plugins ic). fst np = String (snd np)"
      and np: "np \<in> set (plugins ic)" for np
  proof -
    have "distinct (map snd (plugins ic))"
      using d by (rule distinct_plugins)
    moreover have "snd np \<in> set (map snd (plugins ic))"
      using np by simp
    ultimately have "count_list (map snd (plugins ic)) (snd np) = 1"
      by (rule count_list_distinct)
    then show ?thesis
      unfolding eq by (simp add: count_list_Unregister)
  qed
  show ?thesis
    using eq once by blast
qed

theorem Disconnect_order_witness:
  "plugins two_plugin_client = [(''logger'', sample_plugin), (''admin'', AdminPlugin)] \<and>
   String sample_plugin = ''logger'' \<and> String AdminPlugin = ''admin'' \<and>
   effects (Disconnect two_plugin_client ''bye'') =
     [call_Unregister sample_plugin, call_Unregister AdminPlugin, Output ''QUIT :bye'', conn_Quit] \<and>
   count_list (effects (Disconnect two_plugin_client ''bye'')) (call_Unregister AdminPlugin) = 1"
proof -
  have p: "plugins two_plugin_client = [(''logger'', sample_plugin), (''admin'', AdminPlugin)]"
    "effects two_plugin_client = []"
    by (simp_all add: two_plugin_client_def sample_client_def)
  have h: "distinct (map fst (plugins two_plugin_client)) \<and>
      (\<forall>np\<in>set (plugins two_plugin_client). fst np = String (snd np))"
    by (simp add: p sample_plugin_def AdminPlugin_def)
  note D = Disconnect_order [of two_plugin_client "''bye''"]
  have e: "effects (Disconnect two_plugin_client ''bye'') =
     [call_Unregister sample_plugin, call_Unregister AdminPlugin, Output ''QUIT :bye'', conn_Quit]"
    using D by (simp add: p)
  have "(''admin'', AdminPlugin) \<in> set (plugins two_plugin_client)"
    by (simp add: p)
  with D h have c: "count_list (effects (Disconnect two_plugin_client ''bye''))
      (call_Unregister AdminPlugin) = count_list (effects two_plugin_client) (call_Unregister AdminPlugin) + 1"
    by fastforce
  then have c': "count_list (effects (Disconnect two_plugin_client ''bye''))
      (call_Unregister AdminPlugin) = 1"
    by (simp add: p)
  have n: "String sample_plugin = ''logger''" "String AdminPlugin = ''admin''"
    by (simp_all add: sample_plugin_def AdminPlugin_def)
  show ?thesis
    using p(1) n e c' by blast
qed

section \<open>The registration handshake\<close>

text \<open>
  Claim C3, as amended. Let the transport connect. When the process was started with
  command-line arguments (\<^verbatim>\<open>len(os.Args) > 1\<close>, the online restart of the bot), \<^verbatim>\<open>Connect\<close>
  returns success at once and changes nothing: no line is sent and no line is read.
  When it was started without, \<^verbatim>\<open>Connect\<close> first sends \<^verbatim>\<open>NICK\<close> and \<^verbatim>\<open>USER\<close> and then
  reads lines; it returns success if and only if one of the lines it is given parses to the
  numeric \<^verbatim>\<open>001\<close>, and when the input is closed before such a line it returns the error
  that the transport delivers.
\<close>

theorem Connect_registration:
  assumes up: "conn_Connect (GetStringOption ic ''Server'' ''host'') = None"
  shows "(length os_Args > 1 \<longrightarrow>
            Connect P conn_Connect os_Args input closed ic = (Returned None, ic)) \<and>
         (length os_Args \<le> 1 \<longrightarrow>
            (\<exists>es. effects (snd (Connect P conn_Connect os_Args input closed ic)) =
               effects ic @
                 [Output (''NICK '' @ GetStringOption ic ''Server'' ''nick''),
                  Output (''USER '' @ GetStringOption ic ''Server'' ''ident'' @ '' * Q :''
                            @ GetStringOption ic ''Server'' ''realname'')] @ es) \<and>
            (fst (Connect P conn_Connect os_Args input closed ic) = Returned None \<longleftrightarrow>
               (\<exists>l\<in>set input. \<exists>s. P l = Some s \<and> m_Command s = ''001'')) \<and>
            (\<forall>e. closed = Some e \<and> \<not> (\<exists>l\<in>set input. \<exists>s. P l = Some s \<and> m_Command s = ''001'') \<longrightarrow>
               fst (Connect P conn_Connect os_Args input closed ic) = Returned (Some e)))"
proof -
  let ?ic2 = "send_Output (''USER '' @ GetStringOption ic ''Server'' ''ident'' @ '' * Q :''
                            @ GetStringOption ic ''Server'' ''realname'')
               (send_Output (''NICK '' @ GetStringOption ic ''Server'' ''nick'') ic)"
  have g: "GetStringOption (send_Output x cl) a b = GetStringOption cl a b" for x cl a b
    by (simp add: GetStringOption_def send_Output_def emit_fields)
  have restart: "Connect P conn_Connect os_Args input closed ic = (Returned None, ic)"
    if "length os_Args > 1"
    using that up by (simp add: Connect_def)
  have reg: "Connect P conn_Connect os_Args input closed ic =
      Connect_loop P (GetStringOption ic ''Server'' ''nick'') input closed ?ic2"
    if "length os_Args \<le> 1"
    using that up by (simp add: Connect_def Let_def g)
  have e2: "effects ?ic2 = effects ic @
      [Output (''NICK '' @ GetStringOption ic ''Server'' ''nick''),
       Output (''USER '' @ GetStringOption ic ''Server'' ''ident'' @ '' * Q :''
                 @ GetStringOption ic ''Server'' ''realname'')]"
    by (simp add: send_Output_def emit_effects)
  obtain es where es: "effects (snd (Connect_loop P (GetStringOption ic ''Server'' ''nick'') input closed ?ic2))
       = effects ?ic2 @ es"
    using Connect_loop_effects by blast
  show ?thesis
  proof (intro conjI impI)
    assume "length os_Args > 1"
    then show "Connect P conn_Connect os_Args input closed ic = (Returned None, ic)"
      by (rule restart)
  next
    assume a: "length os_Args \<le> 1"
    show "\<exists>es. effects (snd (Connect P conn_Connect os_Args input closed ic)) =
               effects ic @
                 [Output (''NICK '' @ GetStringOption ic ''Server'' ''nick''),
                  Output (''USER '' @ GetStringOption ic ''Server'' ''ident'' @ '' * Q :''
                            @ GetStringOption ic ''Server'' ''realname'')] @ es"
      unfolding reg [OF a] es e2 by simp
    show "fst (Connect P conn_Connect os_Args input closed ic) = Returned None \<longleftrightarrow>
               (\<exists>l\<in>set input. \<exists>s. P l = Some s \<and> m_Command s = ''001'')"
      unfolding reg [OF a] Connect_loop_outcome by (simp split: option.splits)
    show "\<forall>e. closed = Some e \<and> \<not> (\<exists>l\<in>set input. \<exists>s. P l = Some s \<and> m_Command s = ''001'') \<longrightarrow>
               fst (Connect P conn_Connect os_Args input closed ic) = Returned (Some e)"
      unfolding reg [OF a] Connect_loop_outcome by simp
  qed
qed

theorem Connect_registration_witness:
  "sample_conn_Connect (GetStringOption sample_client ''Server'' ''host'') = None \<and>
   length [''mettbot''] \<le> 1 \<and>
   fst (Connect sample_ParseServerLine sample_conn_Connect [''mettbot'']
          [''junk'', '':srv 001 bot :Welcome''] None sample_client) = Returned None \<and>
   (\<exists>es. effects (snd (Connect sample_ParseServerLine sample_conn_Connect [''mettbot'']
          [''junk'', '':srv 001 bot :Welcome''] None sample_client)) =
        [Output ''NICK bot'', Output ''USER mett * Q :Mett Bot''] @ es) \<and>
   fst (Connect sample_ParseServerLine sample_conn_Connect [''mettbot'']
          [''junk''] (Some (errors_New ''EOF'')) sample_client) = Returned (Some (errors_New ''EOF''))"
proof -
  have up: "sample_conn_Connect (GetStringOption sample_client ''Server'' ''host'') = None"
    by (simp add: sample_conn_Connect_def)
  have p: "sample_ParseServerLine ''junk'' = None"
    "sample_ParseServerLine '':srv 001 bot :Welcome'' =
       Some \<lparr>m_Source = ''srv'', m_Target = ''bot'', m_Command = ''001'', m_Args = [''Welcome'']\<rparr>"
    by (simp_all add: sample_ParseServerLine_def)
  have e: "effects sample_client = []"
    by (simp add: sample_client_def)
  from Connect_registration [where conn_Connect = sample_conn_Connect and ic = sample_client
      and P = sample_ParseServerLine and os_Args = "[''mettbot'']"
      and input = "[''junk'', '':srv 001 bot :Welcome'']" and closed = None, OF up]
  have a: "fst (Connect sample_ParseServerLine sample_conn_Connect [''mettbot'']
          [''junk'', '':srv 001 bot :Welcome''] None sample_client) = Returned None"
    "\<exists>es. effects (snd (Connect sample_ParseServerLine sample_conn_Connect [''mettbot'']
          [''junk'', '':srv 001 bot :Welcome''] None sample_client)) =
        [Output ''NICK bot'', Output ''USER mett * Q :Mett Bot''] @ es"
    by (simp_all add: p e sample_client_options)
  from Connect_registration [where conn_Connect = sample_conn_Connect and ic = sample_client
      and P = sample_ParseServerLine and os_Args = "[''mettbot'']"
      and input = "[''junk'']" and closed = "Some (errors_New ''EOF'')", OF up]
  have b: "fst (Connect sample_ParseServerLine sample_conn_Connect [''mettbot'']
          [''junk''] (Some (errors_New ''EOF'')) sample_client) = Returned (Some (errors_New ''EOF''))"
    by (simp add: p)
  show ?thesis
    using up a b by simp
qed

text \<open>
  The claim as stated does not hold for a process started with arguments: the transport
  connects, \<^verbatim>\<open>Connect\<close> returns success, and nothing was sent and no \<^verbatim>\<open>001\<close> was read (the
  input is empty and stays open).
\<close>

theorem Connect_restart_skips_registration:
  "sample_conn_Connect (GetStringOption sample_client ''Server'' ''host'') = None \<and>
   Connect sample_ParseServerLine sample_conn_Connect [''mettbot'', ''restart''] [] None
     sample_client = (Returned None, sample_client) \<and>
   effects sample_client = []"
  by (simp add: Connect_def sample_conn_Connect_def) (simp add: sample_client_def)

section \<open>Nickname collisions\<close>

lemma ProcessLine_range_eq:
  "ProcessLine_range ps s ic = ic\<lparr>effects := effects ic @ map (\<lambda>p. go_ProcessLine (snd p) s) ps\<rparr>"
  by (induction ps s ic rule: ProcessLine_range.induct) (simp_all add: emit_def)

lemma concat_upt_Suc:
  "concat (map F [0..<Suc n]) = F 0 @ concat (map (\<lambda>k. F (Suc k)) [0..<n])"
proof -
  have "[0..<Suc n] = 0 # map Suc [0..<n]"
    by (simp add: upt_conv_Cons map_Suc_upt del: upt_Suc)
  then show ?thesis
    by (simp add: comp_def del: upt_Suc)
qed

lemma lines_sent_collisions:
  "lines_sent (concat (map (\<lambda>k. map (\<lambda>p. go_ProcessLine (snd p) (f k)) ps @ [Output (g k)]) ks))
     = map g ks"
  by (induction ks) (simp_all add: lines_sent_append lines_sent_ProcessLine)

lemma Connect_loop_collisions:
  assumes "map P ls = map Some ss" and "\<forall>s\<in>set ss. m_Command s = ''433''"
  shows "Connect_loop P nick (ls @ rest) closed ic =
     Connect_loop P (nick @ replicate (length ls) CHR ''_'') rest closed
       (ic\<lparr>conf := (if ls = [] then conf ic
                     else (conf ic)((''Server'', ''nick'') \<mapsto> nick @ replicate (length ls) CHR ''_'')),
           effects := effects ic @
             concat (map (\<lambda>k. map (\<lambda>p. go_ProcessLine (snd p) (ss ! k)) (plugins ic)
                                 @ [Output (''NICK '' @ nick @ replicate (Suc k) CHR ''_'')])
                       [0..<length ls])\<rparr>)"
  using assms
proof (induction ls arbitrary: ss nick ic)
  case Nil
  then show ?case by simp
next
  case (Cons l ls)
  from Cons.prems(1) obtain s ss' where ss: "ss = s # ss'" and s: "P l = Some s"
    and rest: "map P ls = map Some ss'"
    by (cases ss) auto
  from Cons.prems(2) ss have c: "m_Command s = ''433''" and cs: "\<forall>s\<in>set ss'. m_Command s = ''433''"
    by simp_all
  let ?ic3 = "ic\<lparr>conf := (conf ic)((''Server'', ''nick'') \<mapsto> nick @ ''_''),
                 effects := effects ic @ map (\<lambda>p. go_ProcessLine (snd p) s) (plugins ic)
                   @ [Output (''NICK '' @ nick @ ''_'')]\<rparr>"
  have step: "Connect_loop P nick ((l # ls) @ rest) closed ic =
      Connect_loop P (nick @ ''_'') (ls @ rest) closed ?ic3"
    using s c
    by (simp add: Let_def ProcessLine_range_eq SetStringOption_def send_Output_def emit_def)
  have r: "(nick @ ''_'') @ replicate k CHR ''_'' = nick @ replicate (Suc k) CHR ''_''" for k
    by (simp add: replicate_app_Cons_same)
  have st: "?ic3\<lparr>conf := (if ls = [] then conf ?ic3
                     else (conf ?ic3)((''Server'', ''nick'') \<mapsto> (nick @ ''_'') @ replicate (length ls) CHR ''_'')),
           effects := effects ?ic3 @
             concat (map (\<lambda>k. map (\<lambda>p. go_ProcessLine (snd p) (ss' ! k)) (plugins ?ic3)
                                 @ [Output (''NICK '' @ (nick @ ''_'') @ replicate (Suc k) CHR ''_'')])
                       [0..<length ls])\<rparr>
     = ic\<lparr>conf := (if l # ls = [] then conf ic
                     else (conf ic)((''Server'', ''nick'') \<mapsto> nick @ replicate (length (l # ls)) CHR ''_'')),
           effects := effects ic @
             concat (map (\<lambda>k. map (\<lambda>p. go_ProcessLine (snd p) (ss ! k)) (plugins ic)
                                 @ [Output (''NICK '' @ nick @ replicate (Suc k) CHR ''_'')])
                       [0..<length (l # ls)])\<rparr>"
    unfolding ss
    by (simp add: concat_upt_Suc del: upt_Suc)
  have n: "(nick @ ''_'') @ replicate (length ls) CHR ''_'' = nick @ replicate (length (l # ls)) CHR ''_''"
    by (simp add: replicate_app_Cons_same)
  have "Connect_loop P nick ((l # ls) @ rest) closed ic =
      Connect_loop P (nick @ ''_'') (ls @ rest) closed ?ic3"
    by (rule step)
  also have "\<dots> = Connect_loop P ((nick @ ''_'') @ replicate (length ls) CHR ''_'') rest closed
       (?ic3\<lparr>conf := (if ls = [] then conf ?ic3
                     else (conf ?ic3)((''Server'', ''nick'') \<mapsto> (nick @ ''_'') @ replicate (length ls) CHR ''_'')),
           effects := effects ?ic3 @
             concat (map (\<lambda>k. map (\<lambda>p. go_ProcessLine (snd p) (ss' ! k)) (plugins ?ic3)
                                 @ [Output (''NICK '' @ (nick @ ''_'') @ replicate (Suc k) CHR ''_'')])
                       [0..<length ls])\<rparr>)"
    by (rule Cons.IH [OF rest cs])
  also have "\<dots> = Connect_loop P ((nick @ ''_'') @ replicate (length ls) CHR ''_'') rest closed
       (ic\<lparr>conf := (if l # ls = [] then conf ic
                     else (conf ic)((''Server'', ''nick'') \<mapsto> nick @ replicate (length (l # ls)) CHR ''_'')),
           effects := effects ic @
             concat (map (\<lambda>k. map (\<lambda>p. go_ProcessLine (snd p) (ss ! k)) (plugins ic)
                                 @ [Output (''NICK '' @ nick @ replicate (Suc k) CHR ''_'')])
                       [0..<length (l # ls)])\<rparr>)"
    by (simp only: st)
  finally show ?case
    unfolding n .
qed

lemma sample_client_fields:
  "plugins sample_client = [(''logger'', sample_plugin)]"
  "effects sample_client = []"
  by (simp_all add: sample_client_def)

text \<open>
  Claim C4. Let the registration loop receive a run \<open>ls\<close> of \<open>n\<close> lines that all parse to the
  numeric \<^verbatim>\<open>433\<close>, starting with the candidate nickname \<open>nick\<close> in the client \<open>ic\<close>. What
  the loop has done after the run is the client \<open>ic'\<close>: for the \<open>k\<close>-th line (from 0) it has
  started the line observers and then sent \<^verbatim>\<open>NICK\<close> with \<open>k + 1\<close> underscores appended to \<open>nick\<close>,
  in this order and nothing else, and for \<open>n > 0\<close> the configuration store holds \<open>nick\<close> with
  \<open>n\<close> underscores. The loop itself goes on: when the input ends after the run the result is
  the transport's error (or the loop waits) in the client \<open>ic'\<close>; when a line with the numeric
  \<^verbatim>\<open>001\<close> follows, the result is success in \<open>ic'\<close> after that line's observers; and for every
  rest of the input the loop behaves as it does from \<open>ic'\<close> with the candidate nickname
  \<open>nick\<close> followed by \<open>n\<close> underscores. With \<open>n = 1\<close>: each such line appends exactly one
  underscore, stores the new nickname and sends one new \<^verbatim>\<open>NICK\<close> line.
\<close>

theorem nick_collision_retry:
  assumes parsed: "map P ls = map Some ss"
    and collisions: "\<forall>s\<in>set ss. m_Command s = ''433''"
  shows
    "(let n = length ls;
          nick' = nick @ replicate n CHR ''_'';
          sent = concat (map (\<lambda>k. map (\<lambda>p. go_ProcessLine (snd p) (ss ! k)) (plugins ic)
                                     @ [Output (''NICK '' @ nick @ replicate (Suc k) CHR ''_'')])
                           [0..<n]);
          ic' = ic\<lparr>conf := (if ls = [] then conf ic
                              else (conf ic)((''Server'', ''nick'') \<mapsto> nick')),
                    effects := effects ic @ sent\<rparr>
      in Connect_loop P nick ls closed ic =
           (case closed of Some e \<Rightarrow> (Returned (Some e), ic') | None \<Rightarrow> (Blocked, ic')) \<and>
         (\<forall>w s post. P w = Some s \<and> m_Command s = ''001'' \<longrightarrow>
            Connect_loop P nick (ls @ w # post) closed ic =
              (Returned None,
               ic'\<lparr>effects := effects ic' @ map (\<lambda>p. go_ProcessLine (snd p) s) (plugins ic)\<rparr>)) \<and>
         (\<forall>rest. Connect_loop P nick (ls @ rest) closed ic =
                   Connect_loop P nick' rest closed ic') \<and>
         lines_sent sent = map (\<lambda>k. ''NICK '' @ nick @ replicate (Suc k) CHR ''_'') [0..<n] \<and>
         (ls \<noteq> [] \<longrightarrow> GetStringOption ic' ''Server'' ''nick'' = nick'))"
proof -
  let ?n = "length ls"
  let ?nick' = "nick @ replicate ?n CHR ''_''"
  let ?sent = "concat (map (\<lambda>k. map (\<lambda>p. go_ProcessLine (snd p) (ss ! k)) (plugins ic)
                                     @ [Output (''NICK '' @ nick @ replicate (Suc k) CHR ''_'')])
                           [0..<?n])"
  let ?ic' = "ic\<lparr>conf := (if ls = [] then conf ic
                              else (conf ic)((''Server'', ''nick'') \<mapsto> ?nick')),
                    effects := effects ic @ ?sent\<rparr>"
  have cont: "Connect_loop P nick (ls @ rest) closed ic = Connect_loop P ?nick' rest closed ?ic'"
    for rest
    using parsed collisions by (rule Connect_loop_collisions)
  have a0: "Connect_loop P x [] closed y =
      (case closed of Some e \<Rightarrow> (Returned (Some e), y) | None \<Rightarrow> (Blocked, y))" for x y
    by simp
  have "Connect_loop P nick ls closed ic = Connect_loop P ?nick' [] closed ?ic'"
    using cont [of "[]"] by (simp only: append_Nil2)
  also have "\<dots> =
      (case closed of Some e \<Rightarrow> (Returned (Some e), ?ic') | None \<Rightarrow> (Blocked, ?ic'))"
    by (rule a0)
  finally have a: "Connect_loop P nick ls closed ic =
           (case closed of Some e \<Rightarrow> (Returned (Some e), ?ic') | None \<Rightarrow> (Blocked, ?ic'))" .
  have b0: "Connect_loop P x (w # post) closed y =
      (Returned None, y\<lparr>effects := effects y @ map (\<lambda>p. go_ProcessLine (snd p) s) (plugins y)\<rparr>)"
    if "P w = Some s \<and> m_Command s = ''001''" for x y w s post
    using that by (simp add: Let_def ProcessLine_range_eq)
  have pl: "plugins ?ic' = plugins ic"
    by simp
  have b: "Connect_loop P nick (ls @ w # post) closed ic =
              (Returned None,
               ?ic'\<lparr>effects := effects ?ic' @ map (\<lambda>p. go_ProcessLine (snd p) s) (plugins ic)\<rparr>)"
    if "P w = Some s \<and> m_Command s = ''001''" for w s post
  proof -
    have "Connect_loop P nick (ls @ w # post) closed ic =
        Connect_loop P ?nick' (w # post) closed ?ic'"
      by (rule cont)
    also have "\<dots> = (Returned None,
        ?ic'\<lparr>effects := effects ?ic' @ map (\<lambda>p. go_ProcessLine (snd p) s) (plugins ?ic')\<rparr>)"
      using that by (rule b0)
    finally show ?thesis
      unfolding pl .
  qed
  have c: "lines_sent ?sent = map (\<lambda>k. ''NICK '' @ nick @ replicate (Suc k) CHR ''_'') [0..<?n]"
    by (rule lines_sent_collisions)
  have d: "ls \<noteq> [] \<longrightarrow> GetStringOption ?ic' ''Server'' ''nick'' = ?nick'"
    by (simp add: GetStringOption_def)
  show ?thesis
    unfolding Let_def using a b cont c d by blast
qed

theorem nick_collision_retry_witness:
  "map sample_ParseServerLine
     ['':srv 433 * bot :Nickname is already in use'',
      '':srv 433 * bot :Nickname is already in use''] =
   map Some
     [\<lparr>m_Source = ''srv'', m_Target = ''*'', m_Command = ''433'',
        m_Args = [''bot'', ''Nickname is already in use'']\<rparr>,
      \<lparr>m_Source = ''srv'', m_Target = ''*'', m_Command = ''433'',
        m_Args = [''bot'', ''Nickname is already in use'']\<rparr>] \<and>
   Connect_loop sample_ParseServerLine ''bot''
     ['':srv 433 * bot :Nickname is already in use'',
      '':srv 433 * bot :Nickname is already in use'']
     (Some (errors_New ''EOF'')) sample_client =
     (Returned (Some (errors_New ''EOF'')),
      sample_client\<lparr>conf := (conf sample_client)((''Server'', ''nick'') \<mapsto> ''bot__''),
        effects :=
          [go_ProcessLine sample_plugin
             \<lparr>m_Source = ''srv'', m_Target = ''*'', m_Command = ''433'',
              m_Args = [''bot'', ''Nickname is already in use'']\<rparr>,
           Output ''NICK bot_'',
           go_ProcessLine sample_plugin
             \<lparr>m_Source = ''srv'', m_Target = ''*'', m_Command = ''433'',
              m_Args = [''bot'', ''Nickname is already in use'']\<rparr>,
           Output ''NICK bot__'']\<rparr>) \<and>
   Connect_loop sample_ParseServerLine ''bot''
     ['':srv 433 * bot :Nickname is already in use'',
      '':srv 433 * bot :Nickname is already in use'',
      '':srv 001 bot :Welcome'', ''junk'']
     None sample_client =
     (Returned None,
      sample_client\<lparr>conf := (conf sample_client)((''Server'', ''nick'') \<mapsto> ''bot__''),
        effects :=
          [go_ProcessLine sample_plugin
             \<lparr>m_Source = ''srv'', m_Target = ''*'', m_Command = ''433'',
              m_Args = [''bot'', ''Nickname is already in use'']\<rparr>,
           Output ''NICK bot_'',
           go_ProcessLine sample_plugin
             \<lparr>m_Source = ''srv'', m_Target = ''*'', m_Command = ''433'',
              m_Args = [''bot'', ''Nickname is already in use'']\<rparr>,
           Output ''NICK bot__'',
           go_ProcessLine sample_plugin
             \<lparr>m_Source = ''srv'', m_Target = ''bot'', m_Command = ''001'',
              m_Args = [''Welcome'']\<rparr>]\<rparr>)"
proof -
  let ?l = "'':srv 433 * bot :Nickname is already in use''"
  let ?s = "\<lparr>m_Source = ''srv'', m_Target = ''*'', m_Command = ''433'',
             m_Args = [''bot'', ''Nickname is already in use'']\<rparr>"
  let ?w = "\<lparr>m_Source = ''srv'', m_Target = ''bot'', m_Command = ''001'',
             m_Args = [''Welcome'']\<rparr>"
  have h1: "map sample_ParseServerLine [?l, ?l] = map Some [?s, ?s]"
    by (simp add: sample_ParseServerLine_def)
  have h2: "\<forall>s\<in>set [?s, ?s]. m_Command s = ''433''"
    by simp
  have w: "sample_ParseServerLine '':srv 001 bot :Welcome'' = Some ?w \<and> m_Command ?w = ''001''"
    by (simp add: sample_ParseServerLine_def)
  note closed = nick_collision_retry [where P = sample_ParseServerLine and nick = "''bot''"
      and ic = sample_client and closed = "Some (errors_New ''EOF'')", OF h1 h2, unfolded Let_def]
  note opened = nick_collision_retry [where P = sample_ParseServerLine and nick = "''bot''"
      and ic = sample_client and closed = None, OF h1 h2, unfolded Let_def]
  have a: "Connect_loop sample_ParseServerLine ''bot'' [?l, ?l]
     (Some (errors_New ''EOF'')) sample_client =
     (Returned (Some (errors_New ''EOF'')),
      sample_client\<lparr>conf := (conf sample_client)((''Server'', ''nick'') \<mapsto> ''bot__''),
        effects := [go_ProcessLine sample_plugin ?s, Output ''NICK bot_'',
           go_ProcessLine sample_plugin ?s, Output ''NICK bot__'']\<rparr>)"
    using closed [THEN conjunct1]
    by (simp add: sample_client_fields del: Connect_loop.simps)
  have "Connect_loop sample_ParseServerLine ''bot''
     ([?l, ?l] @ '':srv 001 bot :Welcome'' # [''junk'']) None sample_client =
     (Returned None,
      sample_client\<lparr>conf := (conf sample_client)((''Server'', ''nick'') \<mapsto> ''bot__''),
        effects := [go_ProcessLine sample_plugin ?s, Output ''NICK bot_'',
           go_ProcessLine sample_plugin ?s, Output ''NICK bot__'',
           go_ProcessLine sample_plugin ?w]\<rparr>)"
    using opened [THEN conjunct2, THEN conjunct1, rule_format, OF w, of "[''junk'']"]
    by (simp add: sample_client_fields del: Connect_loop.simps)
  then have b: "Connect_loop sample_ParseServerLine ''bot''
     [?l, ?l, '':srv 001 bot :Welcome'', ''junk''] None sample_client =
     (Returned None,
      sample_client\<lparr>conf := (conf sample_client)((''Server'', ''nick'') \<mapsto> ''bot__''),
        effects := [go_ProcessLine sample_plugin ?s, Output ''NICK bot_'',
           go_ProcessLine sample_plugin ?s, Output ''NICK bot__'',
           go_ProcessLine sample_plugin ?w]\<rparr>)"
    by (simp only: append_Cons append_Nil)
  show ?thesis
    using h1 a b by blast
qed

section \<open>The quit line is not sanitized\<close>

text \<open>
  Claim C9. Every line that \<^verbatim>\<open>SendLine\<close> puts on the output queue is free of carriage
  returns and line feeds and at most 510 bytes long. \<^verbatim>\<open>Disconnect\<close> sends its quit line
  without \<^verbatim>\<open>SendLine\<close>: for every quit message the line \<^verbatim>\<open>QUIT :\<close> followed by the message
  as it is reaches the queue, for instance one with a carriage return and a line feed in it
  and one of 606 bytes.
\<close>

theorem quit_line_bypasses_SendLine:
  "(\<forall>ic line. \<exists>l. effects (SendLine ic line) = effects ic @ [Output l] \<and>
       CHR 0x0D \<notin> set l \<and> CHR 0x0A \<notin> set l \<and> length l \<le> 510) \<and>
   (\<forall>ic quitmsg. \<exists>es. effects (Disconnect ic quitmsg) = effects ic @ es \<and>
       Output (''QUIT :'' @ quitmsg) \<in> set es) \<and>
   lines_sent (effects (Disconnect sample_client [CHR ''a'', CHR 0x0D, CHR 0x0A, CHR ''b'']))
     = [''QUIT :'' @ [CHR ''a'', CHR 0x0D, CHR 0x0A, CHR ''b'']] \<and>
   lines_sent (effects (Disconnect sample_client (replicate 600 CHR ''x'')))
     = [''QUIT :'' @ replicate 600 CHR ''x''] \<and>
   length (''QUIT :'' @ replicate 600 CHR ''x'') = 606"
proof -
  have a: "\<exists>l. effects (SendLine ic line) = effects ic @ [Output l] \<and>
       CHR 0x0D \<notin> set l \<and> CHR 0x0A \<notin> set l \<and> length l \<le> 510" for ic line
  proof -
    let ?l = "take 510 (map (\<lambda>c. if c = CHR 0x0D \<or> c = CHR 0x0A then CHR '' '' else c) line)"
    have "set ?l \<subseteq> set (map (\<lambda>c. if c = CHR 0x0D \<or> c = CHR 0x0A then CHR '' '' else c) line)"
      by (rule set_take_subset)
    then have "CHR 0x0D \<notin> set ?l" "CHR 0x0A \<notin> set ?l"
      by auto
    moreover have "length ?l \<le> 510" by simp
    moreover have "effects (SendLine ic line) = effects ic @ [Output ?l]"
      by (simp add: SendLine_emit emit_effects)
    ultimately show ?thesis by blast
  qed
  have d: "effects (Disconnect ic quitmsg) =
     effects ic @ map (\<lambda>p. call_Unregister (snd p)) (plugins ic)
       @ [Output (''QUIT :'' @ quitmsg), conn_Quit]" for ic quitmsg
    by (simp add: Disconnect_def Shutdown_def Let_def send_Output_def emit_effects
        Shutdown_range_effects)
  have b: "\<exists>es. effects (Disconnect ic quitmsg) = effects ic @ es \<and>
       Output (''QUIT :'' @ quitmsg) \<in> set es" for ic quitmsg
    unfolding d by simp
  have c: "lines_sent (effects (Disconnect sample_client q)) = [''QUIT :'' @ q]" for q
    unfolding d by (simp add: sample_client_def)
  show ?thesis using a b c by simp
qed

section \<open>Argument accesses of the admin plugin\<close>

text \<open>
  Claim C10. Let every entry of the handler table that the admin plugin owns be one that
  \<^verbatim>\<open>AdminPlugin.Register\<close> has stored (for a verb that was free). Then every command for which
  a dispatch starts the admin plugin's \<^verbatim>\<open>ProcessCommand\<close> was let through by an entry with
  \<^verbatim>\<open>Minparams\<close> 1 (\<^verbatim>\<open>inviteme\<close>) or 2 (\<^verbatim>\<open>say\<close>, \<^verbatim>\<open>notice\<close>, \<^verbatim>\<open>action\<close>), has at least that
  many arguments, and \<^verbatim>\<open>ProcessCommand\<close> on it does not panic: \<^verbatim>\<open>Args[0]\<close> and \<^verbatim>\<open>Args[1:]\<close> are
  within bounds.
\<close>

theorem admin_args_in_bounds:
  assumes owned: "\<forall>v h. handlers ic v = Some h \<and> Handler h = AdminPlugin \<longrightarrow>
                    (\<exists>cl. handlers cl v = None \<and> handlers (AdminPlugin_Register cl) v = Some h)"
    and disp: "dispatchHandlers P PC ic inp = Inr ic'"
    and routed: "go_ProcessCommand AdminPlugin c \<in> set (effects ic')"
    and new: "go_ProcessCommand AdminPlugin c \<notin> set (effects ic)"
  shows "(\<exists>h. handlers ic (c_Command c) = Some h \<and> Handler h = AdminPlugin \<and>
              Minparams h = (if c_Command c = ''inviteme'' then 1 else 2) \<and>
              Minparams h \<le> int (length (c_Args c))) \<and>
         (\<forall>st. \<exists>st'. AdminPlugin_ProcessCommand st c = Inr st')"
proof -
  from dispatch_routes [OF disp routed new] obtain h where
    h: "handlers ic (c_Command c) = Some h" "Handler h = AdminPlugin"
       "Minparams h \<le> int (length (c_Args c))"
    by blast
  with owned obtain cl where
    cl: "handlers cl (c_Command c) = None"
        "handlers (AdminPlugin_Register cl) (c_Command c) = Some h"
    by blast
  from cl have mp: "Minparams h = (if c_Command c = ''inviteme'' then 1 else 2)"
    by (auto simp: AdminPlugin_Register_handlers split: if_splits)
  with h(3) have "c_Args c \<noteq> []"
    by (auto split: if_splits)
  then have "\<forall>st. \<exists>st'. AdminPlugin_ProcessCommand st c = Inr st'"
    using AdminPlugin_ProcessCommand_ok by blast
  with h mp show ?thesis by blast
qed

theorem admin_args_in_bounds_witness:
  "admin_client = AdminPlugin_Register sample_client \<and>
   handlers sample_client = Map.empty \<and>
   dispatchHandlers sample_ParseServerLine sample_ParseCommand admin_client
       '':nick!user@host PRIVMSG #chan :!say #chan hello world'' =
     Inr (emit (go_ProcessCommand AdminPlugin
                  \<lparr>c_Source = ''nick!user@host'', c_Target = ''#chan'', c_Command = ''say'',
                   c_Args = [''#chan'', ''hello'', ''world'']\<rparr>)
            (emit (go_ProcessLine sample_plugin
                  \<lparr>m_Source = ''nick!user@host'', m_Target = ''#chan'', m_Command = ''PRIVMSG'',
                   m_Args = [''!say #chan hello world'']\<rparr>) admin_client)) \<and>
   (\<exists>st'. AdminPlugin_ProcessCommand admin_client
       \<lparr>c_Source = ''nick!user@host'', c_Target = ''#chan'', c_Command = ''say'',
        c_Args = [''#chan'', ''hello'', ''world'']\<rparr> = Inr st')"
proof -
  let ?c = "\<lparr>c_Source = ''nick!user@host'', c_Target = ''#chan'', c_Command = ''say'',
             c_Args = [''#chan'', ''hello'', ''world'']\<rparr>"
  let ?s = "\<lparr>m_Source = ''nick!user@host'', m_Target = ''#chan'', m_Command = ''PRIVMSG'',
             m_Args = [''!say #chan hello world'']\<rparr>"
  let ?ic' = "emit (go_ProcessCommand AdminPlugin ?c) (emit (go_ProcessLine sample_plugin ?s) admin_client)"
  have "\<forall>v h. handlers sample_client v = Some h \<longrightarrow> Handler h \<noteq> AdminPlugin"
    by (simp add: sample_client_def)
  then have owned: "\<forall>v h. handlers admin_client v = Some h \<and> Handler h = AdminPlugin \<longrightarrow>
      (\<exists>cl. handlers cl v = None \<and> handlers (AdminPlugin_Register cl) v = Some h)"
    unfolding admin_client_def by (rule AdminPlugin_Register_owned)
  have disp: "dispatchHandlers sample_ParseServerLine sample_ParseCommand admin_client
       '':nick!user@host PRIVMSG #chan :!say #chan hello world'' = Inr ?ic'"
    by (simp add: dispatchHandlers_def sample_ParseServerLine_def sample_ParseCommand_def
        admin_client_facts Let_def GetStringOption_emit GetAccessLevel_emit emit_fields)
  have routed: "go_ProcessCommand AdminPlugin ?c \<in> set (effects ?ic')"
    by (simp add: emit_effects)
  have new: "go_ProcessCommand AdminPlugin ?c \<notin> set (effects admin_client)"
    by (simp add: admin_client_facts)
  from admin_args_in_bounds [where P = sample_ParseServerLine and PC = sample_ParseCommand,
      OF owned disp routed new]
  have "\<exists>st'. AdminPlugin_ProcessCommand admin_client ?c = Inr st'"
    by blast
  moreover have "handlers sample_client = Map.empty"
    by (simp add: sample_client_def)
  ultimately show ?thesis
    using disp admin_client_def by blast
qed

end
